theory Spec2Isabelle
  imports Main "HOL-Library.Word"
begin

section \<open>Data model\<close>

text \<open>
  A \<open>Uint8Array\<close> is a list of bytes. A JavaScript string is a sequence of UTF-16 code
  units, so it is a list of 16-bit words (and not a HOL \<open>string\<close>, whose characters
  are 8 bits wide): unpaired surrogates are ordinary elements of such a list.
  String literals of the source are written as HOL strings and read with \<open>js\<close>.
\<close>

type_synonym byte = "8 word"
type_synonym bytes = "byte list"
type_synonym code_unit = "16 word"
type_synonym js_string = "code_unit list"

definition js :: "string \<Rightarrow> js_string" where
  "js s = map of_char s"

text \<open>
  The source throws \<open>new Error(message)\<close> and nothing else; the libraries it calls do the
  same. An error is its message.
\<close>

datatype error = Error string

text \<open>
  The template literal \<open>`... got ${bytes.length}`\<close> prints a length in decimal.
\<close>

fun decimal :: "nat \<Rightarrow> string" where
  "decimal n =
     (if n < 10 then [''0123456789'' ! n]
      else decimal (n div 10) @ [''0123456789'' ! (n mod 10)])"

record app_identity =
  privateKey :: js_string
  publicKey :: js_string

record signed_message =
  signature :: js_string
  publicKey :: js_string

section \<open>TextEncoder\<close>

text \<open>
  \<open>new TextEncoder().encode(s)\<close> is a platform function: it reads the code units of
  \<open>s\<close> as scalar values (a lead surrogate followed by a trail surrogate is one
  supplementary code point, any other surrogate becomes U+FFFD) and writes each scalar
  value in UTF-8.
\<close>

definition is_lead :: "code_unit \<Rightarrow> bool" where
  "is_lead u \<longleftrightarrow> 0xD800 \<le> u \<and> u \<le> 0xDBFF"

definition is_trail :: "code_unit \<Rightarrow> bool" where
  "is_trail u \<longleftrightarrow> 0xDC00 \<le> u \<and> u \<le> 0xDFFF"

definition scalar_of_unit :: "code_unit \<Rightarrow> nat" where
  "scalar_of_unit u = (if is_lead u \<or> is_trail u then 0xFFFD else unat u)"

fun scalar_values :: "js_string \<Rightarrow> nat list" where
  "scalar_values [] = []"
| "scalar_values [u] = [scalar_of_unit u]"
| "scalar_values (u # v # vs) =
     (if is_lead u \<and> is_trail v
      then (0x10000 + (unat u - 0xD800) * 0x400 + (unat v - 0xDC00)) # scalar_values vs
      else scalar_of_unit u # scalar_values (v # vs))"

definition utf8_bytes :: "nat \<Rightarrow> bytes" where
  "utf8_bytes cp =
     (if cp < 0x80 then [of_nat cp]
      else if cp < 0x800 then [of_nat (0xC0 + cp div 0x40), of_nat (0x80 + cp mod 0x40)]
      else if cp < 0x10000 then
        [of_nat (0xE0 + cp div 0x1000), of_nat (0x80 + cp div 0x40 mod 0x40),
         of_nat (0x80 + cp mod 0x40)]
      else
        [of_nat (0xF0 + cp div 0x40000), of_nat (0x80 + cp div 0x1000 mod 0x40),
         of_nat (0x80 + cp div 0x40 mod 0x40), of_nat (0x80 + cp mod 0x40)])"

definition TextEncoder_encode :: "js_string \<Rightarrow> bytes" where
  "TextEncoder_encode s = concat (map utf8_bytes (scalar_values s))"

section \<open>Base58 (the bs58 package)\<close>

text \<open>
  The bs58 package (base-x over the Bitcoin alphabet) is a dependency whose code is not
  among the sources. The spec asks for raw Bitcoin-style base58, with no checksum and no
  version byte: a byte string is read as a big-endian number and written in base 58,
  and each leading zero byte is one leading \<open>1\<close>, the alphabet's digit zero.
\<close>

definition ALPHABET :: string where
  "ALPHABET = ''123456789ABCDEFGHJKLMNPQRSTUVWXYZabcdefghijkmnopqrstuvwxyz''"

definition LEADER :: code_unit where
  "LEADER = of_char (CHR ''1'')"

fun index_of :: "'a \<Rightarrow> 'a list \<Rightarrow> nat option" where
  "index_of x [] = None"
| "index_of x (y # ys) = (if x = y then Some 0 else map_option Suc (index_of x ys))"

definition BASE_MAP :: "code_unit \<Rightarrow> nat option" where
  "BASE_MAP c = index_of c (js ALPHABET)"

function digits_of :: "nat \<Rightarrow> nat \<Rightarrow> nat list" where
  "digits_of b n = (if n = 0 \<or> b < 2 then [] else digits_of b (n div b) @ [n mod b])"
  by pat_completeness auto
termination
  by (relation "measure snd") auto

definition value_of :: "nat \<Rightarrow> nat list \<Rightarrow> nat" where
  "value_of b ds = foldl (\<lambda>acc d. acc * b + d) 0 ds"

text \<open>
  Modelled from the spec: \<open>bs58.encode\<close>, whose code is missing. One \<open>1\<close> for each
  leading zero byte, then the base-58 digits of the number the bytes spell.
\<close>

definition b58encode :: "bytes \<Rightarrow> js_string" where
  "b58encode source =
     replicate (length (takeWhile (\<lambda>b. b = 0) source)) LEADER @
     map (\<lambda>d. js ALPHABET ! d) (digits_of 58 (value_of 256 (map unat source)))"

text \<open>
  Modelled from the spec: \<open>bs58.decode\<close>, whose code is missing. The characters are
  looked up in the alphabet one after the other; a character outside the alphabet makes
  the decoding fail (the message is the one base-x throws), and a string of the alphabet
  decodes to one zero byte for each leading \<open>1\<close> followed by the base-256 digits of the
  number the characters spell.
\<close>

fun b58_accumulate :: "js_string \<Rightarrow> nat \<Rightarrow> nat option" where
  "b58_accumulate [] acc = Some acc"
| "b58_accumulate (c # cs) acc =
     (case BASE_MAP c of
        None \<Rightarrow> None
      | Some d \<Rightarrow> b58_accumulate cs (acc * 58 + d))"

definition b58decode :: "js_string \<Rightarrow> error + bytes" where
  "b58decode source =
     (case b58_accumulate source 0 of
        None \<Rightarrow> Inl (Error ''Non-base58 character'')
      | Some n \<Rightarrow>
          Inr (replicate (length (takeWhile (\<lambda>c. c = LEADER) source)) 0 @
               map of_nat (digits_of 256 n)))"

section \<open>The cryptographic primitives (the noble packages)\<close>

text \<open>
  HMAC-SHA512 (\<open>@noble/hashes\<close>) and ed25519 (\<open>@noble/ed25519\<close>, configured in
  \<open>core/noble.ts\<close>) are dependencies whose code is not among the sources: they are a
  parameter of the model. The ed25519 functions may throw, so they return a sum.
\<close>

record crypto =
  hmac_sha512 :: "bytes \<Rightarrow> bytes \<Rightarrow> bytes"
  ed_getPublicKey :: "bytes \<Rightarrow> error + bytes"
  ed_sign :: "bytes \<Rightarrow> bytes \<Rightarrow> error + bytes"
  ed_verify :: "bytes \<Rightarrow> bytes \<Rightarrow> bytes \<Rightarrow> error + bool"

text \<open>
  What the source relies on from them: an HMAC-SHA512 tag has 64 bytes; a 32-byte
  private key has a 32-byte public key and signs any message with a 64-byte signature;
  and a signature verifies against the message it signs and the public key of the
  private key that signed it.
\<close>

definition conformant :: "crypto \<Rightarrow> bool" where
  "conformant L \<longleftrightarrow>
     (\<forall>k m. length (hmac_sha512 L k m) = 64) \<and>
     (\<forall>k. length k = 32 \<longrightarrow> (\<exists>pk. ed_getPublicKey L k = Inr pk \<and> length pk = 32)) \<and>
     (\<forall>k m. length k = 32 \<longrightarrow> (\<exists>sg. ed_sign L m k = Inr sg \<and> length sg = 64)) \<and>
     (\<forall>k m pk sg. ed_getPublicKey L k = Inr pk \<longrightarrow> ed_sign L m k = Inr sg \<longrightarrow>
        ed_verify L sg m pk = Inr True)"

text \<open>
  A small instance of the interface, on which the theorems below are evaluated at
  concrete inputs. It is not a secure scheme: the public key is the reversed private
  key and a signature is the public key followed by the padded message.
\<close>

definition pad_to :: "nat \<Rightarrow> bytes \<Rightarrow> bytes" where
  "pad_to n m = take n (m @ replicate n 0)"

definition sample_crypto :: crypto where
  "sample_crypto =
     \<lparr>hmac_sha512 = (\<lambda>k m. pad_to 64 (m @ k)),
      ed_getPublicKey = (\<lambda>k.
        if length k = 32 then Inr (rev k) else Inl (Error ''private key of length 32 expected'')),
      ed_sign = (\<lambda>m k.
        if length k = 32 then Inr (rev k @ pad_to 32 m)
        else Inl (Error ''private key of length 32 expected'')),
      ed_verify = (\<lambda>sg m pk.
        if length sg = 64 then Inr (length pk = 32 \<and> sg = pk @ pad_to 32 m)
        else Inl (Error ''signature of length 64 expected''))\<rparr>"





section \<open>core/derive.ts\<close>

definition DOMAIN_SEPARATOR :: js_string where
  "DOMAIN_SEPARATOR = js ''PhantomMask-v1-app:''"

definition deriveAppIdentity :: "crypto \<Rightarrow> js_string \<Rightarrow> js_string \<Rightarrow> error + app_identity" where
  "deriveAppIdentity L masterPrivateKey appId =
     (case b58decode masterPrivateKey of
        Inl e \<Rightarrow> Inl e
      | Inr masterKeyBytes \<Rightarrow>
          (if length masterKeyBytes \<noteq> 32
           then Inl (Error (''Master private key must be 32 bytes, got '' @
                            decimal (length masterKeyBytes)))
           else
             (let domainMessage = DOMAIN_SEPARATOR @ appId;
                  messageBytes = TextEncoder_encode domainMessage;
                  hmacOutput = hmac_sha512 L masterKeyBytes messageBytes;
                  derivedPrivateKey = take 32 hmacOutput
              in (case ed_getPublicKey L derivedPrivateKey of
                    Inl e \<Rightarrow> Inl e
                  | Inr derivedPublicKey \<Rightarrow>
                      Inr \<lparr>privateKey = b58encode derivedPrivateKey,
                           publicKey = b58encode derivedPublicKey\<rparr>))))"

section \<open>core/sign.ts\<close>

definition signMessage :: "crypto \<Rightarrow> js_string \<Rightarrow> js_string \<Rightarrow> error + signed_message" where
  "signMessage L derivedPrivateKey message =
     (case b58decode derivedPrivateKey of
        Inl e \<Rightarrow> Inl e
      | Inr privateKeyBytes \<Rightarrow>
          (if length privateKeyBytes \<noteq> 32
           then Inl (Error (''Derived private key must be 32 bytes, got '' @
                            decimal (length privateKeyBytes)))
           else
             (case ed_getPublicKey L privateKeyBytes of
                Inl e \<Rightarrow> Inl e
              | Inr publicKeyBytes \<Rightarrow>
                  (let publicKey58 = b58encode publicKeyBytes;
                       messageBytes = TextEncoder_encode message
                   in (case ed_sign L messageBytes privateKeyBytes of
                         Inl e \<Rightarrow> Inl e
                       | Inr signatureBytes \<Rightarrow>
                           Inr \<lparr>signature = b58encode signatureBytes,
                                publicKey = publicKey58\<rparr>)))))"

text \<open>
  The body of the \<open>try\<close> block of \<open>verifySignature\<close>. The field names of the
  result records are constants here, so the source's local \<open>publicKey\<close> and its
  parameters \<open>signature\<close> and \<open>publicKey\<close>, which hold base58 strings, are written
  \<open>publicKey58\<close> and \<open>signature58\<close>.
\<close>

definition verifySignature_try :: "crypto \<Rightarrow> js_string \<Rightarrow> js_string \<Rightarrow> js_string \<Rightarrow> error + bool" where
  "verifySignature_try L signature58 message publicKey58 =
     (case b58decode signature58 of
        Inl e \<Rightarrow> Inl e
      | Inr signatureBytes \<Rightarrow>
          (case b58decode publicKey58 of
             Inl e \<Rightarrow> Inl e
           | Inr publicKeyBytes \<Rightarrow>
               (if length signatureBytes \<noteq> 64
                then Inl (Error (''Signature must be 64 bytes, got '' @
                                 decimal (length signatureBytes)))
                else if length publicKeyBytes \<noteq> 32
                then Inl (Error (''Public key must be 32 bytes, got '' @
                                 decimal (length publicKeyBytes)))
                else ed_verify L signatureBytes (TextEncoder_encode message) publicKeyBytes)))"

text \<open>The \<open>catch\<close> clause turns every error of the body into \<open>false\<close>.\<close>

definition verifySignature :: "crypto \<Rightarrow> js_string \<Rightarrow> js_string \<Rightarrow> js_string \<Rightarrow> bool" where
  "verifySignature L signature58 message publicKey58 =
     (case verifySignature_try L signature58 message publicKey58 of
        Inl e \<Rightarrow> False
      | Inr valid \<Rightarrow> valid)"

section \<open>Base58: decoding inverts encoding\<close>

declare digits_of.simps [simp del]
declare decimal.simps [simp del]

lemma value_of_snoc: "value_of b (ds @ [d]) = value_of b ds * b + d"
  by (simp add: value_of_def)

lemma value_of_Nil: "value_of b [] = 0"
  by (simp add: value_of_def)

lemma digits_of_zero: "digits_of b 0 = []"
  by (simp add: digits_of.simps)

lemma digits_of_step:
  "2 \<le> b \<Longrightarrow> 0 < n \<Longrightarrow> digits_of b n = digits_of b (n div b) @ [n mod b]"
  by (subst digits_of.simps) simp

lemma value_of_digits: "2 \<le> b \<Longrightarrow> value_of b (digits_of b n) = n"
proof (induction b n rule: digits_of.induct)
  case (1 b n)
  show ?case
  proof (cases "n = 0")
    case True
    then show ?thesis by (simp add: digits_of_zero value_of_Nil)
  next
    case False
    with 1 have "value_of b (digits_of b (n div b)) = n div b" by simp
    with False 1(2) show ?thesis by (simp add: digits_of_step value_of_snoc)
  qed
qed

lemma digits_of_less: "d \<in> set (digits_of b n) \<Longrightarrow> d < b"
proof (induction b n rule: digits_of.induct)
  case (1 b n)
  show ?case
  proof (cases "n = 0 \<or> b < 2")
    case True
    with 1(2) show ?thesis by (simp add: digits_of.simps)
  next
    case False
    with 1 show ?thesis by (subst (asm) (2) digits_of.simps) auto
  qed
qed

lemma digits_of_eq_Nil: "2 \<le> b \<Longrightarrow> digits_of b n = [] \<longleftrightarrow> n = 0"
  by (subst digits_of.simps) simp

lemma value_of_zero_iff:
  assumes "2 \<le> b"
  shows "value_of b ds = 0 \<longleftrightarrow> (\<forall>d\<in>set ds. d = 0)"
proof (induction ds rule: rev_induct)
  case Nil
  show ?case by (simp add: value_of_Nil)
next
  case (snoc d ds)
  from assms show ?case by (auto simp: value_of_snoc snoc)
qed

lemma digits_of_value:
  assumes b: "2 \<le> b"
  shows "\<forall>d\<in>set ds. d < b \<Longrightarrow> digits_of b (value_of b ds) = dropWhile (\<lambda>d. d = 0) ds"
proof (induction ds rule: rev_induct)
  case Nil
  show ?case by (simp add: value_of_Nil digits_of_zero)
next
  case (snoc d ds)
  then have IH: "digits_of b (value_of b ds) = dropWhile (\<lambda>d. d = 0) ds" and d: "d < b"
    by simp_all
  show ?case
  proof (cases "value_of b ds * b + d = 0")
    case True
    then have "value_of b ds = 0" "d = 0" using b by auto
    then have "\<forall>x\<in>set ds. x = 0" using value_of_zero_iff [OF b] by simp
    with \<open>value_of b ds = 0\<close> \<open>d = 0\<close> show ?thesis
      by (simp add: value_of_snoc digits_of_zero dropWhile_append)
  next
    case False
    then have pos: "0 < value_of b ds * b + d" by simp
    have "digits_of b (value_of b ds * b + d) = digits_of b (value_of b ds) @ [d]"
      using b d by (simp add: digits_of_step [OF b pos])
    also have "\<dots> = dropWhile (\<lambda>d. d = 0) ds @ [d]" by (simp add: IH)
    also have "\<dots> = dropWhile (\<lambda>d. d = 0) (ds @ [d])"
    proof (cases "\<forall>x\<in>set ds. x = 0")
      case True
      then have "value_of b ds = 0" using value_of_zero_iff [OF b] by simp
      with False have "d \<noteq> 0" by simp
      with True show ?thesis by (simp add: dropWhile_append)
    next
      case False
      then show ?thesis by (auto simp: dropWhile_append)
    qed
    finally show ?thesis by (simp add: value_of_snoc)
  qed
qed

lemma digits_of_no_leading_zero:
  assumes "2 \<le> b"
  shows "dropWhile (\<lambda>d. d = 0) (digits_of b n) = digits_of b n"
proof -
  have "\<forall>d\<in>set (digits_of b n). d < b" by (simp add: digits_of_less)
  from digits_of_value [OF assms this] show ?thesis
    by (simp add: value_of_digits [OF assms])
qed

lemma index_of_nth: "distinct xs \<Longrightarrow> i < length xs \<Longrightarrow> index_of (xs ! i) xs = Some i"
proof (induction xs arbitrary: i)
  case Nil
  then show ?case by simp
next
  case (Cons x xs)
  then show ?case by (cases i) auto
qed

lemma index_of_None: "index_of x xs = None \<longleftrightarrow> x \<notin> set xs"
  by (induction xs) auto

lemma alphabet_distinct: "distinct (js ALPHABET)"
  by (simp add: js_def ALPHABET_def)

lemma alphabet_length: "length (js ALPHABET) = 58"
  by (simp add: js_def ALPHABET_def)

lemma BASE_MAP_digit: "d < 58 \<Longrightarrow> BASE_MAP (js ALPHABET ! d) = Some d"
  by (simp add: BASE_MAP_def index_of_nth alphabet_distinct alphabet_length)

lemma LEADER_digit: "LEADER = js ALPHABET ! 0"
  by (simp add: LEADER_def js_def ALPHABET_def)

lemma digit_is_LEADER: "d < 58 \<Longrightarrow> js ALPHABET ! d = LEADER \<longleftrightarrow> d = 0"
  unfolding LEADER_digit
  using alphabet_distinct by (simp add: nth_eq_iff_index_eq alphabet_length)

lemma BASE_MAP_None: "BASE_MAP c = None \<longleftrightarrow> c \<notin> set (js ALPHABET)"
  by (simp add: BASE_MAP_def index_of_None)

lemma accumulate_digits:
  "\<forall>d\<in>set ds. d < 58 \<Longrightarrow>
   b58_accumulate (map (\<lambda>d. js ALPHABET ! d) ds) acc = Some (foldl (\<lambda>a d. a * 58 + d) acc ds)"
  by (induction ds arbitrary: acc) (simp_all add: BASE_MAP_digit)

lemma accumulate_None: "b58_accumulate s acc = None \<longleftrightarrow> (\<exists>c\<in>set s. c \<notin> set (js ALPHABET))"
proof (induction s arbitrary: acc)
  case Nil
  show ?case by simp
next
  case (Cons c s)
  show ?case
  proof (cases "BASE_MAP c")
    case None
    then have "c \<notin> set (js ALPHABET)" by (simp add: BASE_MAP_None)
    with None show ?thesis by simp
  next
    case (Some d)
    then have "c \<in> set (js ALPHABET)" using BASE_MAP_None [of c] by simp
    with Some show ?thesis by (simp add: Cons)
  qed
qed

lemma foldl_zero_digits: "foldl (\<lambda>a d. a * 58 + d) 0 (replicate z (0::nat)) = 0"
  by (induction z) simp_all

lemma takeWhile_zero_bytes: "takeWhile (\<lambda>b. b = 0) bs = replicate (length (takeWhile (\<lambda>b. b = 0) bs)) (0::byte)"
  by (induction bs) auto

lemma b58_roundtrip: "b58decode (b58encode bs) = Inr bs"
proof -
  define z where "z = length (takeWhile (\<lambda>b. b = 0) bs)"
  define n where "n = value_of 256 (map unat bs)"
  define ds where "ds = digits_of 58 n"
  let ?ch = "\<lambda>d. js ALPHABET ! d"
  have enc: "b58encode bs = map ?ch (replicate z 0 @ ds)"
    by (simp add: b58encode_def z_def n_def ds_def LEADER_digit)
  have lt: "\<forall>d\<in>set (replicate z 0 @ ds). d < 58"
    by (auto simp: ds_def digits_of_less)
  have acc: "b58_accumulate (b58encode bs) 0 = Some n"
    unfolding enc accumulate_digits [OF lt]
    using value_of_digits [of 58 n]
    by (simp add: foldl_zero_digits ds_def value_of_def)
  have "takeWhile (\<lambda>c. c = LEADER) (map ?ch ds) = []"
  proof (cases ds)
    case Nil
    then show ?thesis by simp
  next
    case (Cons d ds')
    have "dropWhile (\<lambda>d. d = 0) ds = ds"
      unfolding ds_def by (rule digits_of_no_leading_zero) simp
    then have "\<not> hd ds = 0"
      using hd_dropWhile [of "\<lambda>d. d = 0" ds] Cons by simp
    with Cons have "d \<noteq> 0" by simp
    moreover have "d < 58" using Cons digits_of_less [of d 58 n] by (simp add: ds_def)
    ultimately show ?thesis using Cons by (simp add: digit_is_LEADER)
  qed
  then have lead: "length (takeWhile (\<lambda>c. c = LEADER) (b58encode bs)) = z"
    by (simp add: b58encode_def z_def [symmetric] n_def [symmetric] ds_def [symmetric]
        takeWhile_append)
  have "unat b < 256" for b :: byte
    using unsigned_less [of b, where 'a = nat] by simp
  then have "\<forall>d\<in>set (map unat bs). d < 256"
    by auto
  then have "digits_of 256 n = dropWhile (\<lambda>d. d = 0) (map unat bs)"
    unfolding n_def by (intro digits_of_value) simp_all
  also have "\<dots> = map unat (dropWhile (\<lambda>b. b = 0) bs)"
    by (simp add: dropWhile_map comp_def unat_eq_0)
  finally have "map of_nat (digits_of 256 n) = dropWhile (\<lambda>b. b = 0) bs"
    by (simp add: comp_def)
  moreover have "replicate z 0 @ dropWhile (\<lambda>b. b = 0) bs = bs"
    using takeWhile_zero_bytes [of bs] takeWhile_dropWhile_id [of "\<lambda>b. b = 0" bs]
    by (simp add: z_def)
  ultimately show ?thesis
    by (simp add: b58decode_def acc lead)
qed

lemma b58encode_inj: "b58encode a = b58encode b \<Longrightarrow> a = b"
proof -
  assume "b58encode a = b58encode b"
  then have "b58decode (b58encode a) = b58decode (b58encode b)" by (rule arg_cong)
  then show "a = b" by (simp only: b58_roundtrip sum.inject)
qed

lemma b58decode_invalid:
  "\<exists>c\<in>set s. c \<notin> set (js ALPHABET) \<Longrightarrow> b58decode s = Inl (Error ''Non-base58 character'')"
  using accumulate_None [of s 0] by (simp add: b58decode_def)

lemma b58decode_Inl:
  "b58decode s = Inl e \<Longrightarrow> e = Error ''Non-base58 character'' \<and> (\<exists>c\<in>set s. c \<notin> set (js ALPHABET))"
  using accumulate_None [of s 0] by (auto simp: b58decode_def split: option.splits)

lemma b58decode_leaders: "b58decode (replicate n LEADER) = Inr (replicate n 0)"
proof -
  have "b58encode (replicate n 0) = replicate n LEADER"
    by (simp add: b58encode_def value_of_zero_iff [THEN iffD2] digits_of_zero)
  with b58_roundtrip [of "replicate n 0"] show ?thesis by simp
qed

lemma scalar_values_plain:
  "\<not> is_lead u \<Longrightarrow> scalar_values (u # us) = scalar_of_unit u # scalar_values us"
  by (cases us) simp_all

lemma encode_plain:
  "\<not> is_lead u \<Longrightarrow>
   TextEncoder_encode (u # us) = utf8_bytes (scalar_of_unit u) @ TextEncoder_encode us"
  by (simp add: TextEncoder_encode_def scalar_values_plain)

lemma encode_Nil: "TextEncoder_encode [] = []"
  by (simp add: TextEncoder_encode_def)

lemma encode_domain_separator:
  "TextEncoder_encode (DOMAIN_SEPARATOR @ appId) =
   map of_char ''PhantomMask-v1-app:'' @ TextEncoder_encode appId"
  by (simp add: DOMAIN_SEPARATOR_def js_def encode_plain is_lead_def is_trail_def
      scalar_of_unit_def utf8_bytes_def)

lemma sample_conformant: "conformant sample_crypto"
  by (auto simp: conformant_def sample_crypto_def pad_to_def)

section \<open>What each operation returns\<close>

lemma conformant_hmac: "conformant L \<Longrightarrow> length (hmac_sha512 L k m) = 64"
  by (simp add: conformant_def)

lemma conformant_getPublicKey:
  "conformant L \<Longrightarrow> length k = 32 \<Longrightarrow> \<exists>pk. ed_getPublicKey L k = Inr pk \<and> length pk = 32"
  by (simp add: conformant_def)

lemma conformant_sign:
  "conformant L \<Longrightarrow> length k = 32 \<Longrightarrow> \<exists>sg. ed_sign L m k = Inr sg \<and> length sg = 64"
  by (simp add: conformant_def)

lemma conformant_verify:
  "conformant L \<Longrightarrow> ed_getPublicKey L k = Inr pk \<Longrightarrow> ed_sign L m k = Inr sg \<Longrightarrow>
   ed_verify L sg m pk = Inr True"
  unfolding conformant_def by blast

lemma derive_valid:
  assumes "conformant L" and "b58decode masterPrivateKey = Inr k" and "length k = 32"
  shows "\<exists>pk. ed_getPublicKey L
                (take 32 (hmac_sha512 L k (TextEncoder_encode (DOMAIN_SEPARATOR @ appId)))) = Inr pk \<and>
              length pk = 32 \<and>
              deriveAppIdentity L masterPrivateKey appId =
                Inr \<lparr>privateKey = b58encode
                       (take 32 (hmac_sha512 L k (TextEncoder_encode (DOMAIN_SEPARATOR @ appId)))),
                     publicKey = b58encode pk\<rparr>"
proof -
  let ?d = "take 32 (hmac_sha512 L k (TextEncoder_encode (DOMAIN_SEPARATOR @ appId)))"
  have "length ?d = 32" using assms(1) by (simp add: conformant_hmac)
  with assms(1) obtain pk where pk: "ed_getPublicKey L ?d = Inr pk" "length pk = 32"
    using conformant_getPublicKey by blast
  with assms(2,3) show ?thesis by (simp add: deriveAppIdentity_def)
qed

lemma sign_valid:
  assumes "conformant L" and "b58decode derivedPrivateKey = Inr k" and "length k = 32"
  shows "\<exists>pk sg. ed_getPublicKey L k = Inr pk \<and> length pk = 32 \<and>
                 ed_sign L (TextEncoder_encode message) k = Inr sg \<and> length sg = 64 \<and>
                 signMessage L derivedPrivateKey message =
                   Inr \<lparr>signature = b58encode sg, publicKey = b58encode pk\<rparr>"
proof -
  from assms(1,3) obtain pk where pk: "ed_getPublicKey L k = Inr pk" "length pk = 32"
    using conformant_getPublicKey by blast
  from assms(1,3) obtain sg where sg: "ed_sign L (TextEncoder_encode message) k = Inr sg" "length sg = 64"
    using conformant_sign by blast
  from pk sg assms(2,3) show ?thesis by (simp add: signMessage_def)
qed

lemma derive_Inr:
  assumes "deriveAppIdentity L masterPrivateKey appId = Inr idn"
  shows "\<exists>k pk. b58decode masterPrivateKey = Inr k \<and> length k = 32 \<and>
      ed_getPublicKey L
        (take 32 (hmac_sha512 L k (TextEncoder_encode (DOMAIN_SEPARATOR @ appId)))) = Inr pk \<and>
      idn = \<lparr>privateKey = b58encode
                (take 32 (hmac_sha512 L k (TextEncoder_encode (DOMAIN_SEPARATOR @ appId)))),
             publicKey = b58encode pk\<rparr>"
  using assms by (auto simp: deriveAppIdentity_def Let_def split: sum.splits if_splits)

lemma verify_iff:
  "verifySignature L s m p \<longleftrightarrow>
     (\<exists>sb pb. b58decode s = Inr sb \<and> b58decode p = Inr pb \<and> length sb = 64 \<and> length pb = 32 \<and>
        ed_verify L sb (TextEncoder_encode m) pb = Inr True)"
  by (auto simp: verifySignature_def verifySignature_try_def split: sum.splits)

lemma sign_verify_valid:
  assumes "conformant L" and "b58decode derivedPrivateKey = Inr k" and "length k = 32"
  shows "\<exists>sm. signMessage L derivedPrivateKey message = Inr sm \<and>
              verifySignature L (signature sm) message (signed_message.publicKey sm)"
proof -
  from sign_valid [OF assms, of message] obtain pk sg where
    pk: "ed_getPublicKey L k = Inr pk" "length pk = 32" and
    sg: "ed_sign L (TextEncoder_encode message) k = Inr sg" "length sg = 64" and
    sm: "signMessage L derivedPrivateKey message =
           Inr \<lparr>signature = b58encode sg, publicKey = b58encode pk\<rparr>"
    by blast
  have "ed_verify L sg (TextEncoder_encode message) pk = Inr True"
    using conformant_verify [OF assms(1) pk(1) sg(1)] .
  with pk(2) sg(2) have "verifySignature L (b58encode sg) message (b58encode pk)"
    by (simp add: verify_iff b58_roundtrip)
  with sm show ?thesis by simp
qed

lemma encode_lone_surrogate: "TextEncoder_encode [0xD800] = [0xEF, 0xBF, 0xBD]"
  by (simp add: TextEncoder_encode_def scalar_of_unit_def is_lead_def utf8_bytes_def)

lemma encode_replacement: "TextEncoder_encode [0xFFFD] = [0xEF, 0xBF, 0xBD]"
  by (simp add: TextEncoder_encode_def scalar_of_unit_def is_lead_def is_trail_def utf8_bytes_def)

lemma derive_depends_on_utf8:
  assumes "TextEncoder_encode a1 = TextEncoder_encode a2"
  shows "deriveAppIdentity L masterPrivateKey a1 = deriveAppIdentity L masterPrivateKey a2"
proof -
  have eq: "TextEncoder_encode (DOMAIN_SEPARATOR @ a1) = TextEncoder_encode (DOMAIN_SEPARATOR @ a2)"
    using assms by (simp only: encode_domain_separator)
  show ?thesis
    unfolding deriveAppIdentity_def Let_def eq by (rule refl)
qed

section \<open>Keys used as concrete inputs\<close>

lemma leaders_31: "js ''1111111111111111111111111111111'' = replicate 31 LEADER"
  by (simp add: js_def LEADER_def eval_nat_numeral)

lemma leaders_32: "js ''11111111111111111111111111111111'' = replicate 32 LEADER"
  by (simp add: js_def LEADER_def eval_nat_numeral)

lemma leaders_33: "js ''111111111111111111111111111111111'' = replicate 33 LEADER"
  by (simp add: js_def LEADER_def eval_nat_numeral)

lemma leaders_64:
  "js ''1111111111111111111111111111111111111111111111111111111111111111'' = replicate 64 LEADER"
  by (simp add: js_def LEADER_def eval_nat_numeral)

lemma decode_empty: "b58decode [] = Inr []"
  by (simp add: b58decode_def digits_of_zero)

lemma decode_2: "b58decode (js ''2'') = Inr [1]"
  by (simp add: b58decode_def js_def BASE_MAP_def ALPHABET_def LEADER_def digits_of.simps)

lemma zero_key: "b58decode (js ''11111111111111111111111111111111'') = Inr (replicate 32 0)"
  by (simp only: leaders_32 b58decode_leaders)

lemma sample_hmac: "hmac_sha512 sample_crypto k m = pad_to 64 (m @ k)"
  by (simp add: sample_crypto_def)

lemma sample_getPublicKey: "length k = 32 \<Longrightarrow> ed_getPublicKey sample_crypto k = Inr (rev k)"
  by (simp add: sample_crypto_def)

lemma sample_sign: "length k = 32 \<Longrightarrow> ed_sign sample_crypto m k = Inr (rev k @ pad_to 32 m)"
  by (simp add: sample_crypto_def)

lemma encode_test_app: "TextEncoder_encode (js ''test-app'') = map of_char ''test-app''"
  by (simp add: js_def encode_plain encode_Nil is_lead_def is_trail_def scalar_of_unit_def
      utf8_bytes_def)

lemma zero_signature:
  "b58decode (js ''1111111111111111111111111111111111111111111111111111111111111111'') =
     Inr (replicate 64 0)"
  by (simp only: leaders_64 b58decode_leaders)

lemma decode_31: "b58decode (js ''1111111111111111111111111111111'') = Inr (replicate 31 0)"
  by (simp only: leaders_31 b58decode_leaders)

lemma decode_non_base58: "b58decode (js ''0OIl'') = Inl (Error ''Non-base58 character'')"
  by (rule b58decode_invalid) (simp add: js_def ALPHABET_def)

lemma encode_a: "TextEncoder_encode (js ''a'') = [97]"
  by (simp add: js_def encode_plain encode_Nil is_lead_def is_trail_def scalar_of_unit_def
      utf8_bytes_def)

lemma sample_verify:
  "length sg = 64 \<Longrightarrow>
   ed_verify sample_crypto sg m pk = Inr (length pk = 32 \<and> sg = pk @ pad_to 32 m)"
  by (simp add: sample_crypto_def)

section \<open>Length validation\<close>

text \<open>
  C5. A key that decodes to a byte length other than 32 makes both \<open>deriveAppIdentity\<close>
  and \<open>signMessage\<close> fail with their length error, which reports the length found.
  The result does not depend on the cryptographic primitives \<open>L\<close>: the error is raised
  before any of them is called. The instance below has the lengths 0, 1, 31, 33 and 64.
\<close>

theorem invalid_key_length_rejected:
  assumes "b58decode key = Inr k" and "length k \<noteq> 32"
  shows "deriveAppIdentity L key appId =
           Inl (Error (''Master private key must be 32 bytes, got '' @ decimal (length k))) \<and>
         signMessage L key message =
           Inl (Error (''Derived private key must be 32 bytes, got '' @ decimal (length k)))"
  using assms by (simp add: deriveAppIdentity_def signMessage_def)

theorem invalid_key_length_rejected_witness:
  "deriveAppIdentity sample_crypto [] (js ''test-app'') =
     Inl (Error ''Master private key must be 32 bytes, got 0'') \<and>
   signMessage sample_crypto [] (js ''Test message'') =
     Inl (Error ''Derived private key must be 32 bytes, got 0'') \<and>
   deriveAppIdentity sample_crypto (js ''2'') (js ''test-app'') =
     Inl (Error ''Master private key must be 32 bytes, got 1'') \<and>
   signMessage sample_crypto (js ''2'') (js ''Test message'') =
     Inl (Error ''Derived private key must be 32 bytes, got 1'') \<and>
   deriveAppIdentity sample_crypto (js ''1111111111111111111111111111111'') (js ''test-app'') =
     Inl (Error ''Master private key must be 32 bytes, got 31'') \<and>
   signMessage sample_crypto (js ''1111111111111111111111111111111'') (js ''Test message'') =
     Inl (Error ''Derived private key must be 32 bytes, got 31'') \<and>
   deriveAppIdentity sample_crypto (js ''111111111111111111111111111111111'') (js ''test-app'') =
     Inl (Error ''Master private key must be 32 bytes, got 33'') \<and>
   signMessage sample_crypto (js ''111111111111111111111111111111111'') (js ''Test message'') =
     Inl (Error ''Derived private key must be 32 bytes, got 33'') \<and>
   deriveAppIdentity sample_crypto
       (js ''1111111111111111111111111111111111111111111111111111111111111111'') (js ''test-app'') =
     Inl (Error ''Master private key must be 32 bytes, got 64'') \<and>
   signMessage sample_crypto
       (js ''1111111111111111111111111111111111111111111111111111111111111111'')
       (js ''Test message'') =
     Inl (Error ''Derived private key must be 32 bytes, got 64'')"
proof -
  have d0: "b58decode [] = Inr []" by (rule decode_empty)
  have d1: "b58decode (js ''2'') = Inr [1]" by (rule decode_2)
  have d31: "b58decode (js ''1111111111111111111111111111111'') = Inr (replicate 31 0)"
    by (simp only: leaders_31 b58decode_leaders)
  have d33: "b58decode (js ''111111111111111111111111111111111'') = Inr (replicate 33 0)"
    by (simp only: leaders_33 b58decode_leaders)
  have d64: "b58decode (js ''1111111111111111111111111111111111111111111111111111111111111111'')
      = Inr (replicate 64 0)"
    by (simp only: leaders_64 b58decode_leaders)
  show ?thesis
    using invalid_key_length_rejected [OF d0, of sample_crypto "js ''test-app''" "js ''Test message''"]
      invalid_key_length_rejected [OF d1, of sample_crypto "js ''test-app''" "js ''Test message''"]
      invalid_key_length_rejected [OF d31, of sample_crypto "js ''test-app''" "js ''Test message''"]
      invalid_key_length_rejected [OF d33, of sample_crypto "js ''test-app''" "js ''Test message''"]
      invalid_key_length_rejected [OF d64, of sample_crypto "js ''test-app''" "js ''Test message''"]
    by (simp add: decimal.simps)
qed

section \<open>Derivation\<close>

text \<open>
  C1. For a master key that decodes to 32 bytes \<open>k\<close> and any \<open>appId\<close>, the derived
  private key is the first 32 bytes of the 64-byte HMAC-SHA512 tag, keyed with \<open>k\<close>, of
  the UTF-8 bytes of \<open>"PhantomMask-v1-app:" + appId\<close>; these bytes are the 19 ASCII bytes
  of the prefix followed by the UTF-8 bytes of \<open>appId\<close>. The derived public key is the
  ed25519 public key of that private key, and both are returned base58-encoded.
\<close>

theorem deriveAppIdentity_computes:
  assumes "conformant L" and "b58decode masterPrivateKey = Inr k" and "length k = 32"
  shows "TextEncoder_encode (js ''PhantomMask-v1-app:'' @ appId) =
           map of_char ''PhantomMask-v1-app:'' @ TextEncoder_encode appId \<and>
         length (hmac_sha512 L k (TextEncoder_encode (js ''PhantomMask-v1-app:'' @ appId))) = 64 \<and>
         (\<exists>pk. ed_getPublicKey L
                 (take 32 (hmac_sha512 L k (TextEncoder_encode (js ''PhantomMask-v1-app:'' @ appId))))
                 = Inr pk \<and>
               deriveAppIdentity L masterPrivateKey appId =
                 Inr \<lparr>privateKey = b58encode
                        (take 32 (hmac_sha512 L k
                           (TextEncoder_encode (js ''PhantomMask-v1-app:'' @ appId)))),
                      publicKey = b58encode pk\<rparr>)"
proof -
  have sep: "js ''PhantomMask-v1-app:'' = DOMAIN_SEPARATOR"
    by (simp only: DOMAIN_SEPARATOR_def)
  from derive_valid [OF assms, of appId] obtain pk where
    "ed_getPublicKey L
       (take 32 (hmac_sha512 L k (TextEncoder_encode (DOMAIN_SEPARATOR @ appId)))) = Inr pk"
    "deriveAppIdentity L masterPrivateKey appId =
       Inr \<lparr>privateKey = b58encode
              (take 32 (hmac_sha512 L k (TextEncoder_encode (DOMAIN_SEPARATOR @ appId)))),
            publicKey = b58encode pk\<rparr>"
    by blast
  then show ?thesis
    unfolding sep using assms(1) by (simp add: encode_domain_separator conformant_hmac)
qed

theorem deriveAppIdentity_computes_witness:
  "conformant sample_crypto \<and>
   b58decode (js ''11111111111111111111111111111111'') = Inr (replicate 32 0) \<and>
   TextEncoder_encode (js ''PhantomMask-v1-app:'' @ js ''test-app'') =
     map of_char ''PhantomMask-v1-app:test-app'' \<and>
   deriveAppIdentity sample_crypto (js ''11111111111111111111111111111111'') (js ''test-app'') =
     Inr \<lparr>privateKey = b58encode (map of_char ''PhantomMask-v1-app:test-app'' @ replicate 5 0),
          publicKey = b58encode (replicate 5 0 @ rev (map of_char ''PhantomMask-v1-app:test-app''))\<rparr>"
proof -
  have len: "length (replicate 32 (0::byte)) = 32" by simp
  note inst = deriveAppIdentity_computes [OF sample_conformant zero_key len, of "js ''test-app''"]
  from inst have msg: "TextEncoder_encode (js ''PhantomMask-v1-app:'' @ js ''test-app'') =
      map of_char ''PhantomMask-v1-app:test-app''"
    by (simp add: encode_test_app)
  have d: "take 32 (hmac_sha512 sample_crypto (replicate 32 0)
        (TextEncoder_encode (js ''PhantomMask-v1-app:'' @ js ''test-app''))) =
      map of_char ''PhantomMask-v1-app:test-app'' @ replicate 5 0"
    unfolding msg by (simp add: sample_hmac pad_to_def)
  have pk: "ed_getPublicKey sample_crypto (map of_char ''PhantomMask-v1-app:test-app'' @ replicate 5 0)
      = Inr (replicate 5 0 @ rev (map of_char ''PhantomMask-v1-app:test-app''))"
    by (simp add: sample_getPublicKey)
  from inst obtain pk' where
    g: "ed_getPublicKey sample_crypto (take 32 (hmac_sha512 sample_crypto (replicate 32 0)
          (TextEncoder_encode (js ''PhantomMask-v1-app:'' @ js ''test-app'')))) = Inr pk'" and
    r: "deriveAppIdentity sample_crypto (js ''11111111111111111111111111111111'') (js ''test-app'') =
          Inr \<lparr>privateKey = b58encode (take 32 (hmac_sha512 sample_crypto (replicate 32 0)
                 (TextEncoder_encode (js ''PhantomMask-v1-app:'' @ js ''test-app'')))),
               publicKey = b58encode pk'\<rparr>"
    by blast
  from g have "pk' = replicate 5 0 @ rev (map of_char ''PhantomMask-v1-app:test-app'')"
    unfolding d pk by simp
  with r have "deriveAppIdentity sample_crypto (js ''11111111111111111111111111111111'')
      (js ''test-app'') =
     Inr \<lparr>privateKey = b58encode (map of_char ''PhantomMask-v1-app:test-app'' @ replicate 5 0),
          publicKey = b58encode (replicate 5 0 @ rev (map of_char ''PhantomMask-v1-app:test-app''))\<rparr>"
    unfolding d by simp
  with sample_conformant zero_key msg show ?thesis by blast
qed

section \<open>Determinism\<close>





section \<open>Signing and verifying\<close>

text \<open>
  C3. For every identity returned by \<open>deriveAppIdentity\<close> and every message,
  \<open>signMessage\<close> with the identity's private key succeeds, and \<open>verifySignature\<close> of
  the returned signature, the same message and the returned public key is true.
\<close>

theorem sign_verify_roundtrip:
  assumes "conformant L" and "deriveAppIdentity L masterPrivateKey appId = Inr idn"
  shows "\<exists>sm. signMessage L (privateKey idn) message = Inr sm \<and>
              verifySignature L (signature sm) message (signed_message.publicKey sm)"
proof -
  from derive_Inr [OF assms(2)] obtain k pk where
    k: "b58decode masterPrivateKey = Inr k" "length k = 32" and
    idn: "idn = \<lparr>privateKey = b58encode
                (take 32 (hmac_sha512 L k (TextEncoder_encode (DOMAIN_SEPARATOR @ appId)))),
             publicKey = b58encode pk\<rparr>"
    by blast
  let ?d = "take 32 (hmac_sha512 L k (TextEncoder_encode (DOMAIN_SEPARATOR @ appId)))"
  have "b58decode (privateKey idn) = Inr ?d" by (simp add: idn b58_roundtrip)
  moreover have "length ?d = 32" using assms(1) by (simp add: conformant_hmac)
  ultimately show ?thesis using assms(1) by (rule sign_verify_valid [rotated])
qed

theorem sign_verify_roundtrip_witness:
  "\<exists>idn sm.
     deriveAppIdentity sample_crypto (js ''11111111111111111111111111111111'') (js ''signing-app'')
       = Inr idn \<and>
     signMessage sample_crypto (privateKey idn) (js ''Test message'') = Inr sm \<and>
     verifySignature sample_crypto (signature sm) (js ''Test message'') (signed_message.publicKey sm)"
proof -
  from derive_valid [OF sample_conformant zero_key, of "js ''signing-app''"] obtain idn where
    idn: "deriveAppIdentity sample_crypto (js ''11111111111111111111111111111111'')
            (js ''signing-app'') = Inr idn"
    by auto
  from sign_verify_roundtrip [OF sample_conformant idn, of "js ''Test message''"] idn
  show ?thesis by blast
qed

text \<open>
  C4. \<open>verifySignature\<close> returns a boolean on every triple of strings: whatever the
  \<open>try\<close> block throws (malformed base58, a signature that is not 64 bytes, a public key
  that is not 32 bytes, an error of the ed25519 verification itself) becomes \<open>false\<close>.
  It returns true exactly when both strings decode, to 64 and to 32 bytes, and the
  ed25519 verification of the signature, the UTF-8 bytes of the message and the public
  key returns true.
\<close>

theorem verifySignature_total:
  "(verifySignature L signature58 message publicKey58 \<longleftrightarrow>
      verifySignature_try L signature58 message publicKey58 = Inr True) \<and>
   (verifySignature L signature58 message publicKey58 \<longleftrightarrow>
      (\<exists>sg pk. b58decode signature58 = Inr sg \<and> b58decode publicKey58 = Inr pk \<and>
         length sg = 64 \<and> length pk = 32 \<and>
         ed_verify L sg (TextEncoder_encode message) pk = Inr True))"
proof
  show "verifySignature L signature58 message publicKey58 \<longleftrightarrow>
      verifySignature_try L signature58 message publicKey58 = Inr True"
    by (cases "verifySignature_try L signature58 message publicKey58")
      (simp_all add: verifySignature_def)
  show "verifySignature L signature58 message publicKey58 \<longleftrightarrow>
      (\<exists>sg pk. b58decode signature58 = Inr sg \<and> b58decode publicKey58 = Inr pk \<and>
         length sg = 64 \<and> length pk = 32 \<and>
         ed_verify L sg (TextEncoder_encode message) pk = Inr True)"
    by (rule verify_iff)
qed

theorem verifySignature_total_witness:
  "verifySignature sample_crypto
     (js ''1111111111111111111111111111111111111111111111111111111111111111'') []
     (js ''11111111111111111111111111111111'') \<and>
   \<not> verifySignature sample_crypto
     (js ''1111111111111111111111111111111111111111111111111111111111111111'') (js ''a'')
     (js ''11111111111111111111111111111111'') \<and>
   \<not> verifySignature sample_crypto (js ''0OIl'') []
     (js ''11111111111111111111111111111111'') \<and>
   \<not> verifySignature sample_crypto
     (js ''1111111111111111111111111111111111111111111111111111111111111111'') []
     (js ''0OIl'') \<and>
   \<not> verifySignature sample_crypto (js ''11111111111111111111111111111111'') []
     (js ''11111111111111111111111111111111'') \<and>
   \<not> verifySignature sample_crypto
     (js ''1111111111111111111111111111111111111111111111111111111111111111'') []
     (js ''1111111111111111111111111111111'') \<and>
   \<not> verifySignature (sample_crypto\<lparr>ed_verify := \<lambda>sg m pk. Inl (Error ''bad point'')\<rparr>)
     (js ''1111111111111111111111111111111111111111111111111111111111111111'') []
     (js ''11111111111111111111111111111111'')"
proof -
  have pad: "pad_to 32 [] = replicate 32 0" "pad_to 32 [97] = 97 # replicate 31 0"
    by (simp_all add: pad_to_def)
  have split: "replicate 64 (0::byte) = replicate 32 0 @ replicate 32 0"
    by (simp add: replicate_add [symmetric])
  have r32: "replicate 32 (0::byte) = 0 # replicate 31 0"
    by (simp flip: replicate_Suc)
  have neq: "replicate 64 (0::byte) \<noteq> replicate 32 0 @ 97 # replicate 31 0"
    unfolding split by (simp add: r32)
  note iff = verifySignature_total [THEN conjunct2]
  show ?thesis
    by (simp add: iff zero_signature zero_key decode_31 decode_non_base58 encode_a encode_Nil
        sample_verify pad split [symmetric] neq)
qed

text \<open>
  C6. For a private key that decodes to 32 bytes, \<open>signMessage\<close> returns the base58
  encoding of the ed25519 signature of the message's UTF-8 bytes together with the base58
  encoding of the ed25519 public key of that private key. When the private key is the
  one of an identity returned by \<open>deriveAppIdentity\<close>, the public key returned by
  \<open>signMessage\<close> is the identity's public key.
\<close>

theorem signMessage_publicKey_rederived:
  assumes "conformant L"
  shows "(\<forall>k. b58decode derivedPrivateKey = Inr k \<and> length k = 32 \<longrightarrow>
            (\<exists>pk sg. ed_getPublicKey L k = Inr pk \<and>
               ed_sign L (TextEncoder_encode message) k = Inr sg \<and>
               signMessage L derivedPrivateKey message =
                 Inr \<lparr>signature = b58encode sg, publicKey = b58encode pk\<rparr>)) \<and>
         (\<forall>idn. deriveAppIdentity L masterPrivateKey appId = Inr idn \<longrightarrow>
            (\<exists>sm. signMessage L (privateKey idn) message = Inr sm \<and>
               signed_message.publicKey sm = app_identity.publicKey idn))"
proof (intro conjI allI impI)
  fix k
  assume "b58decode derivedPrivateKey = Inr k \<and> length k = 32"
  then show "\<exists>pk sg. ed_getPublicKey L k = Inr pk \<and>
               ed_sign L (TextEncoder_encode message) k = Inr sg \<and>
               signMessage L derivedPrivateKey message =
                 Inr \<lparr>signature = b58encode sg, publicKey = b58encode pk\<rparr>"
    using sign_valid [OF assms, of derivedPrivateKey k message] by blast
next
  fix idn
  assume "deriveAppIdentity L masterPrivateKey appId = Inr idn"
  from derive_Inr [OF this] obtain k pk where
    pk: "ed_getPublicKey L
           (take 32 (hmac_sha512 L k (TextEncoder_encode (DOMAIN_SEPARATOR @ appId)))) = Inr pk" and
    idn: "idn = \<lparr>privateKey = b58encode
                (take 32 (hmac_sha512 L k (TextEncoder_encode (DOMAIN_SEPARATOR @ appId)))),
             publicKey = b58encode pk\<rparr>"
    by blast
  let ?d = "take 32 (hmac_sha512 L k (TextEncoder_encode (DOMAIN_SEPARATOR @ appId)))"
  have dec: "b58decode (privateKey idn) = Inr ?d" by (simp add: idn b58_roundtrip)
  have len: "length ?d = 32" using assms by (simp add: conformant_hmac)
  from sign_valid [OF assms dec len, of message] pk
  show "\<exists>sm. signMessage L (privateKey idn) message = Inr sm \<and>
          signed_message.publicKey sm = app_identity.publicKey idn"
    by (auto simp: idn)
qed

theorem signMessage_publicKey_rederived_witness:
  "\<exists>idn sm.
     deriveAppIdentity sample_crypto (js ''11111111111111111111111111111111'') (js ''test-app'')
       = Inr idn \<and>
     signMessage sample_crypto (privateKey idn) (js ''Test message'') = Inr sm \<and>
     signed_message.publicKey sm = app_identity.publicKey idn \<and>
     signMessage sample_crypto (js ''11111111111111111111111111111111'') [] =
       Inr \<lparr>signature = js ''1111111111111111111111111111111111111111111111111111111111111111'',
            publicKey = js ''11111111111111111111111111111111''\<rparr>"
proof -
  from derive_valid [OF sample_conformant zero_key, of "js ''test-app''"] obtain idn where
    idn: "deriveAppIdentity sample_crypto (js ''11111111111111111111111111111111'')
            (js ''test-app'') = Inr idn"
    by auto
  note inst = signMessage_publicKey_rederived [OF sample_conformant,
      of "js ''11111111111111111111111111111111''" "[]"
         "js ''11111111111111111111111111111111''" "js ''test-app''"]
  have e32: "b58encode (replicate 32 0) = js ''11111111111111111111111111111111''"
    by (simp add: b58encode_def value_of_zero_iff [THEN iffD2] digits_of_zero leaders_32)
  have e64: "b58encode (replicate 64 0) =
      js ''1111111111111111111111111111111111111111111111111111111111111111''"
    by (simp add: b58encode_def value_of_zero_iff [THEN iffD2] digits_of_zero leaders_64)
  have split: "replicate 32 (0::byte) @ replicate 32 0 = replicate 64 0"
    by (simp add: replicate_add [symmetric])
  from inst [THEN conjunct1] zero_key
  have "signMessage sample_crypto (js ''11111111111111111111111111111111'') [] =
       Inr \<lparr>signature = js ''1111111111111111111111111111111111111111111111111111111111111111'',
            publicKey = js ''11111111111111111111111111111111''\<rparr>"
    by (simp add: sample_getPublicKey sample_sign encode_Nil pad_to_def split e32 e64)
  moreover from signMessage_publicKey_rederived [OF sample_conformant, THEN conjunct2, rule_format, OF idn]
  obtain sm where "signMessage sample_crypto (privateKey idn) (js ''Test message'') = Inr sm"
    "signed_message.publicKey sm = app_identity.publicKey idn"
    by blast
  ultimately show ?thesis using idn by blast
qed

section \<open>Unlinkability\<close>

text \<open>
  C7. The claim, the docstring of \<open>deriveAppIdentity\<close> (same wallet and different app ID
  give a different identity) and the second test of \<open>scripts/cli.ts\<close> ask for different
  public keys for distinct identifiers. The code does not give them for the identifiers
  \<open>"\\uD800"\<close> and \<open>"\\uFFFD"\<close>: the identifier enters the derivation only through
  \<open>TextEncoder\<close>, which writes every unpaired surrogate as U+FFFD, so both identifiers
  become the bytes EF BF BD. Under every master key that decodes to 32 bytes the two
  distinct identifiers get one and the same identity.
\<close>

theorem lone_surrogate_collision:
  assumes "conformant L" and "b58decode masterPrivateKey = Inr k" and "length k = 32"
  shows "[0xD800] \<noteq> [0xFFFD :: code_unit] \<and>
         (\<exists>idn. deriveAppIdentity L masterPrivateKey [0xD800] = Inr idn \<and>
                deriveAppIdentity L masterPrivateKey [0xFFFD] = Inr idn)"
proof -
  from derive_valid [OF assms, of "[0xD800]"] obtain idn where
    idn: "deriveAppIdentity L masterPrivateKey [0xD800] = Inr idn"
    by auto
  have "deriveAppIdentity L masterPrivateKey [0xD800] =
        deriveAppIdentity L masterPrivateKey [0xFFFD]"
    by (rule derive_depends_on_utf8) (simp only: encode_lone_surrogate encode_replacement)
  with idn show ?thesis by simp
qed

theorem lone_surrogate_collision_witness:
  "deriveAppIdentity sample_crypto (js ''11111111111111111111111111111111'') [0xD800] =
     Inr \<lparr>privateKey =
            b58encode (map of_char ''PhantomMask-v1-app:'' @ [0xEF, 0xBF, 0xBD] @ replicate 10 0),
          publicKey =
            b58encode (replicate 10 0 @ [0xBD, 0xBF, 0xEF] @
                       rev (map of_char ''PhantomMask-v1-app:''))\<rparr> \<and>
   deriveAppIdentity sample_crypto (js ''11111111111111111111111111111111'') [0xFFFD] =
     Inr \<lparr>privateKey =
            b58encode (map of_char ''PhantomMask-v1-app:'' @ [0xEF, 0xBF, 0xBD] @ replicate 10 0),
          publicKey =
            b58encode (replicate 10 0 @ [0xBD, 0xBF, 0xEF] @
                       rev (map of_char ''PhantomMask-v1-app:''))\<rparr>"
proof -
  have len: "length (replicate 32 (0::byte)) = 32" by simp
  from lone_surrogate_collision [OF sample_conformant zero_key len] obtain idn where
    a: "deriveAppIdentity sample_crypto (js ''11111111111111111111111111111111'') [0xD800] = Inr idn"
    and b: "deriveAppIdentity sample_crypto (js ''11111111111111111111111111111111'') [0xFFFD] = Inr idn"
    by blast
  have enc: "TextEncoder_encode (DOMAIN_SEPARATOR @ [0xD800]) =
      map of_char ''PhantomMask-v1-app:'' @ [0xEF, 0xBF, 0xBD]"
    by (simp only: encode_domain_separator encode_lone_surrogate)
  have d: "take 32 (hmac_sha512 sample_crypto (replicate 32 0)
        (map of_char ''PhantomMask-v1-app:'' @ [0xEF, 0xBF, 0xBD])) =
      map of_char ''PhantomMask-v1-app:'' @ [0xEF, 0xBF, 0xBD] @ replicate 10 0"
    by (simp add: sample_hmac pad_to_def)
  have g: "ed_getPublicKey sample_crypto
        (map of_char ''PhantomMask-v1-app:'' @ [0xEF, 0xBF, 0xBD] @ replicate 10 0) =
      Inr (replicate 10 0 @ [0xBD, 0xBF, 0xEF] @ rev (map of_char ''PhantomMask-v1-app:''))"
    by (simp add: sample_getPublicKey)
  from derive_Inr [OF a] zero_key obtain pk where
    pk: "ed_getPublicKey sample_crypto (take 32 (hmac_sha512 sample_crypto (replicate 32 0)
           (TextEncoder_encode (DOMAIN_SEPARATOR @ [0xD800])))) = Inr pk" and
    i: "idn = \<lparr>privateKey = b58encode (take 32 (hmac_sha512 sample_crypto (replicate 32 0)
                  (TextEncoder_encode (DOMAIN_SEPARATOR @ [0xD800])))),
               publicKey = b58encode pk\<rparr>"
    by auto
  from pk have "pk = replicate 10 0 @ [0xBD, 0xBF, 0xEF] @ rev (map of_char ''PhantomMask-v1-app:'')"
    unfolding enc d g by simp
  with i have "idn =
     \<lparr>privateKey =
        b58encode (map of_char ''PhantomMask-v1-app:'' @ [0xEF, 0xBF, 0xBD] @ replicate 10 0),
      publicKey =
        b58encode (replicate 10 0 @ [0xBD, 0xBF, 0xEF] @
                   rev (map of_char ''PhantomMask-v1-app:''))\<rparr>"
    unfolding enc d by simp
  with a b show ?thesis by simp
qed

section \<open>Failure modes of the derivation\<close>

text \<open>
  C8, as stated, fails: \<open>deriveAppIdentity\<close> has a second failure mode. The string
  \<open>"0"\<close> is not base58 (the alphabet has no zero), so \<open>bs58.decode\<close> throws before the
  length is looked at, and the error is not the length error for any length.
\<close>

theorem derive_single_failure_counterexample:
  "(\<forall>L appId. deriveAppIdentity L (js ''0'') appId = Inl (Error ''Non-base58 character'')) \<and>
   (\<forall>n. Error ''Non-base58 character'' \<noteq>
        Error (''Master private key must be 32 bytes, got '' @ decimal n))"
proof -
  have "b58decode (js ''0'') = Inl (Error ''Non-base58 character'')"
    by (rule b58decode_invalid) (simp add: js_def ALPHABET_def)
  then show ?thesis
    by (simp add: deriveAppIdentity_def)
qed

text \<open>
  C8, amended. \<open>deriveAppIdentity\<close> has exactly two failure modes: the decode error when
  the master key is not a base58 string, and the length error when it decodes to a byte
  length other than 32. On every other input it succeeds with a complete identity: a
  private key and a public key that are base58 strings of 32 bytes each.
\<close>

theorem derive_failure_modes:
  assumes "conformant L"
  shows "(case b58decode masterPrivateKey of
            Inl e \<Rightarrow>
              e = Error ''Non-base58 character'' \<and>
              deriveAppIdentity L masterPrivateKey appId = Inl e
          | Inr k \<Rightarrow>
              (if length k \<noteq> 32
               then deriveAppIdentity L masterPrivateKey appId =
                      Inl (Error (''Master private key must be 32 bytes, got '' @
                                  decimal (length k)))
               else (\<exists>idn d pk. deriveAppIdentity L masterPrivateKey appId = Inr idn \<and>
                       b58decode (privateKey idn) = Inr d \<and> length d = 32 \<and>
                       b58decode (app_identity.publicKey idn) = Inr pk \<and> length pk = 32)))"
proof (cases "b58decode masterPrivateKey")
  case (Inl e)
  then show ?thesis
    using b58decode_Inl [OF Inl] by (simp add: deriveAppIdentity_def)
next
  case (Inr k)
  show ?thesis
  proof (cases "length k = 32")
    case True
    from derive_valid [OF assms Inr True, of appId] obtain pk where
      "length pk = 32"
      "deriveAppIdentity L masterPrivateKey appId =
         Inr \<lparr>privateKey = b58encode
                (take 32 (hmac_sha512 L k (TextEncoder_encode (DOMAIN_SEPARATOR @ appId)))),
              publicKey = b58encode pk\<rparr>"
      by blast
    with Inr True assms show ?thesis
      by (simp add: b58_roundtrip conformant_hmac)
  next
    case False
    with Inr show ?thesis by (simp add: deriveAppIdentity_def)
  qed
qed

theorem derive_failure_modes_witness:
  "deriveAppIdentity sample_crypto (js ''0OIl'') (js ''test-app'') =
     Inl (Error ''Non-base58 character'') \<and>
   deriveAppIdentity sample_crypto (js ''1111111111111111111111111111111'') (js ''test-app'') =
     Inl (Error ''Master private key must be 32 bytes, got 31'') \<and>
   (\<exists>idn d pk.
      deriveAppIdentity sample_crypto (js ''11111111111111111111111111111111'') (js ''test-app'')
        = Inr idn \<and>
      b58decode (privateKey idn) = Inr d \<and> length d = 32 \<and>
      b58decode (app_identity.publicKey idn) = Inr pk \<and> length pk = 32)"
  using derive_failure_modes [OF sample_conformant, of "js ''0OIl''" "js ''test-app''"]
    derive_failure_modes [OF sample_conformant, of "js ''1111111111111111111111111111111''"
      "js ''test-app''"]
    derive_failure_modes [OF sample_conformant, of "js ''11111111111111111111111111111111''"
      "js ''test-app''"]
  by (simp add: decode_non_base58 decode_31 zero_key decimal.simps)

text \<open>
  C9. A key with a character outside the base58 alphabet makes \<open>deriveAppIdentity\<close> and
  \<open>signMessage\<close> fail with the decode error of \<open>bs58.decode\<close>, which neither function
  catches; its message differs from the message of either length error, whatever the
  length reported.
\<close>

theorem decode_error_distinct:
  assumes "\<exists>c\<in>set key. c \<notin> set (js ALPHABET)"
  shows "deriveAppIdentity L key appId = Inl (Error ''Non-base58 character'') \<and>
         signMessage L key message = Inl (Error ''Non-base58 character'') \<and>
         (\<forall>n. Error ''Non-base58 character'' \<noteq>
              Error (''Master private key must be 32 bytes, got '' @ decimal n)) \<and>
         (\<forall>n. Error ''Non-base58 character'' \<noteq>
              Error (''Derived private key must be 32 bytes, got '' @ decimal n))"
  using b58decode_invalid [OF assms]
  by (simp add: deriveAppIdentity_def signMessage_def)

theorem decode_error_distinct_witness:
  "(\<exists>c\<in>set (js ''not base58!''). c \<notin> set (js ALPHABET)) \<and>
   deriveAppIdentity sample_crypto (js ''not base58!'') (js ''test-app'') =
     Inl (Error ''Non-base58 character'') \<and>
   signMessage sample_crypto (js ''not base58!'') (js ''Test message'') =
     Inl (Error ''Non-base58 character'')"
proof -
  have a: "\<exists>c\<in>set (js ''not base58!''). c \<notin> set (js ALPHABET)"
    by (simp add: js_def ALPHABET_def)
  show ?thesis
    using a decode_error_distinct [OF a, of sample_crypto "js ''test-app''" "js ''Test message''"]
    by blast
qed

text \<open>
  C10. \<open>deriveAppIdentity\<close> puts no condition on \<open>appId\<close>: for a master key that decodes
  to 32 bytes it succeeds on every \<open>appId\<close> with an identity whose two keys are base58
  strings of 32 bytes each. On the empty \<open>appId\<close> the private key is derived from the 19
  bytes of the domain prefix alone.
\<close>

theorem derive_any_appId:
  assumes "conformant L" and "b58decode masterPrivateKey = Inr k" and "length k = 32"
  shows "(\<exists>idn d pk. deriveAppIdentity L masterPrivateKey appId = Inr idn \<and>
            b58decode (privateKey idn) = Inr d \<and> length d = 32 \<and>
            b58decode (app_identity.publicKey idn) = Inr pk \<and> length pk = 32) \<and>
         (\<exists>idn. deriveAppIdentity L masterPrivateKey [] = Inr idn \<and>
            privateKey idn =
              b58encode (take 32 (hmac_sha512 L k (map of_char ''PhantomMask-v1-app:''))))"
proof
  from derive_valid [OF assms, of appId] obtain pk where
    "length pk = 32"
    "deriveAppIdentity L masterPrivateKey appId =
       Inr \<lparr>privateKey = b58encode
              (take 32 (hmac_sha512 L k (TextEncoder_encode (DOMAIN_SEPARATOR @ appId)))),
            publicKey = b58encode pk\<rparr>"
    by blast
  with assms(1) show "\<exists>idn d pk. deriveAppIdentity L masterPrivateKey appId = Inr idn \<and>
            b58decode (privateKey idn) = Inr d \<and> length d = 32 \<and>
            b58decode (app_identity.publicKey idn) = Inr pk \<and> length pk = 32"
    by (simp add: b58_roundtrip conformant_hmac)
  from derive_valid [OF assms, of "[]"]
  show "\<exists>idn. deriveAppIdentity L masterPrivateKey [] = Inr idn \<and>
            privateKey idn =
              b58encode (take 32 (hmac_sha512 L k (map of_char ''PhantomMask-v1-app:'')))"
    using encode_domain_separator [of "[]"] by (auto simp: encode_Nil)
qed

theorem derive_any_appId_witness:
  "deriveAppIdentity sample_crypto (js ''11111111111111111111111111111111'') [] =
     Inr \<lparr>privateKey = b58encode (map of_char ''PhantomMask-v1-app:'' @ replicate 13 0),
          publicKey = b58encode (replicate 13 0 @ rev (map of_char ''PhantomMask-v1-app:''))\<rparr>"
proof -
  have len: "length (replicate 32 (0::byte)) = 32" by simp
  from derive_any_appId [OF sample_conformant zero_key len, THEN conjunct2] obtain idn where
    idn: "deriveAppIdentity sample_crypto (js ''11111111111111111111111111111111'') [] = Inr idn"
      "privateKey idn = b58encode (take 32 (hmac_sha512 sample_crypto (replicate 32 0)
         (map of_char ''PhantomMask-v1-app:'')))"
    by blast
  have d: "take 32 (hmac_sha512 sample_crypto (replicate 32 0) (map of_char ''PhantomMask-v1-app:''))
      = map of_char ''PhantomMask-v1-app:'' @ replicate 13 0"
    by (simp add: sample_hmac pad_to_def)
  from derive_Inr [OF idn(1)] zero_key obtain pk where
    pk: "ed_getPublicKey sample_crypto (take 32 (hmac_sha512 sample_crypto (replicate 32 0)
           (TextEncoder_encode (DOMAIN_SEPARATOR @ [])))) = Inr pk"
      "app_identity.publicKey idn = b58encode pk"
    by auto
  have enc: "TextEncoder_encode (DOMAIN_SEPARATOR @ []) = map of_char ''PhantomMask-v1-app:''"
    using encode_domain_separator [of "[]"] by (simp add: encode_Nil)
  have g: "ed_getPublicKey sample_crypto (map of_char ''PhantomMask-v1-app:'' @ replicate 13 0) =
      Inr (replicate 13 0 @ rev (map of_char ''PhantomMask-v1-app:''))"
    by (simp add: sample_getPublicKey)
  from pk(1) have "pk = replicate 13 0 @ rev (map of_char ''PhantomMask-v1-app:'')"
    unfolding enc d g by simp
  with pk(2) idn(2) have "idn =
      \<lparr>privateKey = b58encode (map of_char ''PhantomMask-v1-app:'' @ replicate 13 0),
       publicKey = b58encode (replicate 13 0 @ rev (map of_char ''PhantomMask-v1-app:''))\<rparr>"
    unfolding d by simp
  with idn(1) show ?thesis by simp
qed

end
